theory Spec2Isabelle
  imports Main
begin

section \<open>Data model\<close>

text \<open>
  A JavaScript \<open>Date\<close> is an instant: the number of milliseconds since the epoch.
  Identifiers are JavaScript numbers.
\<close>

type_synonym instant = int

text \<open>The \<open>Appointment\<close> entity: one row of the appointment table.\<close>

record Appointment =
  appointment_id :: int
  link :: string
  startTime :: instant
  endTime :: instant
  localDoctorId :: int
  remoteDoctorId :: int
  patientId :: int

text \<open>
  The \<open>Role\<close> enumeration has the members \<open>LocalDoctor\<close> and \<open>RemoteDoctor\<close>; the role
  column of a stored doctor may hold any other value, kept here as \<open>OtherRole\<close>.
\<close>

datatype Role = LocalDoctor | RemoteDoctor | OtherRole string

record Doctor =
  doctor_id :: int
  role :: Role

text \<open>
  The \<open>Filter\<close> enumeration has the members \<open>today\<close>, \<open>future\<close> and \<open>past\<close>; a request
  may carry any other value, kept here as \<open>OtherFilter\<close>.
\<close>

datatype Filter = today | future | past | OtherFilter string

record PaginationOptionsDto =
  offset :: nat
  limit :: nat
  filterBy :: Filter
  showAll :: bool

record CreateAppointmentDto =
  dto_link :: string
  dto_startTime :: instant
  dto_endTime :: instant
  dto_localDoctorId :: int
  dto_remoteDoctorId :: int
  dto_patientId :: int

text \<open>\<open>DeepPartial<Appointment>\<close> as \<open>createAppointment\<close> builds it: every column but the id.\<close>

record AppointmentPartial =
  new_link :: string
  new_startTime :: instant
  new_endTime :: instant
  new_localDoctorId :: int
  new_remoteDoctorId :: int
  new_patientId :: int

text \<open>The exceptions of \<open>@nestjs/common\<close> the service throws, each with its message.\<close>

datatype HttpException =
    BadRequestException string
  | ConflictException string
  | NotFoundException string
  | UnauthorizedException string

text \<open>
  What a call of the service can end in besides its result: one of these exceptions, or
  the \<open>TypeError\<close> that the query builder raises from within \<open>where\<close>.
\<close>

datatype Thrown = Http HttpException | TypeError

text \<open>The two repositories the service is constructed with.\<close>

record Store =
  appointments :: "Appointment list"
  doctors :: "Doctor list"

section \<open>Time: the calls to moment\<close>

definition msPerDay :: int where
  "msPerDay = 86400000"

text \<open>
  \<open>moment()\<close> reads the clock and works in local mode: with the rules of the zone of the
  server process, as the JavaScript \<open>Date\<close> applies them. A zone is given by these rules:
  the local calendar day that holds an instant (counted from 1970-01-01), the local time
  of day of an instant in milliseconds, and the instant of a local time of day on a
  local calendar day (\<open>new Date(y, m, d, 0, 0, 0, ms)\<close>).
\<close>

record Zone =
  localDay :: "instant \<Rightarrow> int"
  localTimeOfDay :: "instant \<Rightarrow> int"
  fromLocal :: "int \<Rightarrow> int \<Rightarrow> instant"

record Clock =
  now_ms :: instant
  zone :: Zone

text \<open>A zone at a fixed offset from UTC (local time = UTC + offset); offset 0 is UTC.\<close>

definition fixedZone :: "int \<Rightarrow> Zone" where
  "fixedZone off =
     \<lparr>localDay = (\<lambda>t. (t + off) div msPerDay),
      localTimeOfDay = (\<lambda>t. (t + off) mod msPerDay),
      fromLocal = (\<lambda>d ms. d * msPerDay + ms - off)\<rparr>"

text \<open>
  A zone with a change of offset: two hours east of UTC until 2023-10-29 01:00 UTC, one
  hour from then on (Europe/Berlin around that date). A local time that occurs twice is
  read with the earlier offset.
\<close>

definition europeBerlin2023 :: Zone where
  "europeBerlin2023 =
     \<lparr>localDay = (\<lambda>t. (t + (if t < 1698541200000 then 7200000 else 3600000)) div msPerDay),
      localTimeOfDay =
        (\<lambda>t. (t + (if t < 1698541200000 then 7200000 else 3600000)) mod msPerDay),
      fromLocal = (\<lambda>d ms. let wall = d * msPerDay + ms
                           in if wall - 7200000 < 1698541200000 then wall - 7200000
                              else wall - 3600000)\<rparr>"

text \<open>
  \<open>moment(x).utc().toDate()\<close>: \<open>utc()\<close> switches the moment to UTC mode, which changes how
  it is displayed and manipulated, not the instant; \<open>toDate()\<close> gives that instant back.
\<close>

definition utc_toDate :: "instant \<Rightarrow> instant" where
  "utc_toDate t = t"

text \<open>
  On a local-mode moment, \<open>startOf('day')\<close> is midnight of the local calendar day that
  holds the instant and \<open>endOf('day')\<close> is one millisecond before the next local
  midnight; \<open>add(n, 'days')\<close> and \<open>subtract(n, 'days')\<close> move the local calendar date
  by \<open>n\<close> and keep the local time of day. A local day is not always 24 hours long.
\<close>

definition startOf_day :: "Zone \<Rightarrow> instant \<Rightarrow> instant" where
  "startOf_day z t = fromLocal z (localDay z t) 0"

definition endOf_day :: "Zone \<Rightarrow> instant \<Rightarrow> instant" where
  "endOf_day z t = fromLocal z (localDay z t + 1) 0 - 1"

definition add_days :: "Zone \<Rightarrow> nat \<Rightarrow> instant \<Rightarrow> instant" where
  "add_days z n t = fromLocal z (localDay z t + int n) (localTimeOfDay z t)"

definition subtract_days :: "Zone \<Rightarrow> nat \<Rightarrow> instant \<Rightarrow> instant" where
  "subtract_days z n t = fromLocal z (localDay z t - int n) (localTimeOfDay z t)"

section \<open>The query builder of the appointment repository\<close>

datatype column =
  IdCol | StartTimeCol | EndTimeCol | LocalDoctorIdCol | RemoteDoctorIdCol | PatientIdCol

fun columnValue :: "column \<Rightarrow> Appointment \<Rightarrow> int" where
  "columnValue IdCol a = appointment_id a"
| "columnValue StartTimeCol a = startTime a"
| "columnValue EndTimeCol a = endTime a"
| "columnValue LocalDoctorIdCol a = localDoctorId a"
| "columnValue RemoteDoctorIdCol a = remoteDoctorId a"
| "columnValue PatientIdCol a = patientId a"

text \<open>
  A condition string with its parameters bound: comparisons of a column with a
  parameter value, joined by \<open>AND\<close> and \<open>OR\<close>.
\<close>

datatype clause =
    Eq column int
  | Ge column int
  | Gt column int
  | Le column int
  | Lt column int
  | AndC clause clause
  | OrC clause clause

fun holds :: "clause \<Rightarrow> Appointment \<Rightarrow> bool" where
  "holds (Eq c v) a = (columnValue c a = v)"
| "holds (Ge c v) a = (columnValue c a \<ge> v)"
| "holds (Gt c v) a = (columnValue c a > v)"
| "holds (Le c v) a = (columnValue c a \<le> v)"
| "holds (Lt c v) a = (columnValue c a < v)"
| "holds (AndC x y) a = (holds x a \<and> holds y a)"
| "holds (OrC x y) a = (holds x a \<or> holds y a)"

datatype connective = Simple | And | Or

record SelectQuery =
  wheres :: "(connective \<times> clause) list"
  orderBy :: "column option"
  skipRows :: "nat option"
  takeRows :: "nat option"

definition createQueryBuilder :: SelectQuery where
  "createQueryBuilder = \<lparr>wheres = [], orderBy = None, skipRows = None, takeRows = None\<rparr>"

text \<open>
  \<open>where\<close> with a condition string replaces the conditions collected so far;
  \<open>andWhere\<close> and \<open>orWhere\<close> append one.
\<close>

definition where_clause :: "clause \<Rightarrow> SelectQuery \<Rightarrow> SelectQuery" where
  "where_clause c qb = qb\<lparr>wheres := [(Simple, c)]\<rparr>"

text \<open>
  \<open>where\<close> with a variable that may still be \<open>undefined\<close> (here \<open>None\<close>). What the
  builder does with \<open>undefined\<close> depends on the release of the library, which the
  sources do not fix: up to 0.2.34 it clears the conditions and goes on, from 0.2.35 it
  throws \<open>TypeError\<close>. The release is a parameter of the model.
\<close>

datatype WhereUndefined = AddsNoCondition | ThrowsTypeError

definition where_variable ::
  "WhereUndefined \<Rightarrow> clause option \<Rightarrow> SelectQuery \<Rightarrow> Thrown + SelectQuery" where
  "where_variable typeorm w qb =
     (case w of
        Some c \<Rightarrow> Inr (where_clause c qb)
      | None \<Rightarrow>
          (case typeorm of
             AddsNoCondition \<Rightarrow> Inr (qb\<lparr>wheres := []\<rparr>)
           | ThrowsTypeError \<Rightarrow> Inl TypeError))"

definition andWhere :: "clause \<Rightarrow> SelectQuery \<Rightarrow> SelectQuery" where
  "andWhere c qb = qb\<lparr>wheres := wheres qb @ [(And, c)]\<rparr>"

definition orWhere :: "clause \<Rightarrow> SelectQuery \<Rightarrow> SelectQuery" where
  "orWhere c qb = qb\<lparr>wheres := wheres qb @ [(Or, c)]\<rparr>"

definition orderBy_ASC :: "column \<Rightarrow> SelectQuery \<Rightarrow> SelectQuery" where
  "orderBy_ASC c qb = qb\<lparr>orderBy := Some c\<rparr>"

definition skip :: "nat \<Rightarrow> SelectQuery \<Rightarrow> SelectQuery" where
  "skip n qb = qb\<lparr>skipRows := Some n\<rparr>"

definition take_rows :: "nat \<Rightarrow> SelectQuery \<Rightarrow> SelectQuery" where
  "take_rows n qb = qb\<lparr>takeRows := Some n\<rparr>"

text \<open>
  The collected conditions are joined into one SQL expression, in which \<open>AND\<close> binds
  tighter than \<open>OR\<close>: \<open>acc\<close> is the value of the conjunction being read.
\<close>

fun evalWheres :: "bool \<Rightarrow> (connective \<times> clause) list \<Rightarrow> Appointment \<Rightarrow> bool" where
  "evalWheres acc [] a = acc"
| "evalWheres acc ((Or, c) # ws) a = (acc \<or> evalWheres (holds c a) ws a)"
| "evalWheres acc ((k, c) # ws) a = evalWheres (acc \<and> holds c a) ws a"

text \<open>
  \<open>getMany\<close>: the rows that meet the conditions, ordered (ascending, rows with equal keys
  in table order), then \<open>skip\<close> rows dropped and at most \<open>take\<close> rows kept. The builder
  tests \<open>skip\<close> and \<open>take\<close> for truthiness, so a value of 0 is the same as not set:
  \<open>take(0)\<close> keeps every row.
  The left joins and the column selection of the service's queries decorate each row
  with display fields and do not change which rows are returned or their order; the
  model returns the rows themselves.
\<close>

definition getMany :: "SelectQuery \<Rightarrow> Appointment list \<Rightarrow> Appointment list" where
  "getMany qb rows =
     (let matched = filter (evalWheres True (wheres qb)) rows;
          ordered = (case orderBy qb of None \<Rightarrow> matched
                     | Some c \<Rightarrow> sort_key (columnValue c) matched);
          skipped = (case skipRows qb of None \<Rightarrow> ordered | Some n \<Rightarrow> drop n ordered)
      in case takeRows qb of
           None \<Rightarrow> skipped
         | Some n \<Rightarrow> if n = 0 then skipped else take n skipped)"

text \<open>\<open>getOne\<close>: the first such row, or \<open>null\<close>.\<close>

definition getOne :: "SelectQuery \<Rightarrow> Appointment list \<Rightarrow> Appointment option" where
  "getOne qb rows = (case getMany qb rows of [] \<Rightarrow> None | a # _ \<Rightarrow> Some a)"

text \<open>\<open>doctorRepository.findOne({ where: { id } })\<close>.\<close>

definition findOne_doctor :: "Doctor list \<Rightarrow> int \<Rightarrow> Doctor option" where
  "findOne_doctor ds i = find (\<lambda>d. doctor_id d = i) ds"

text \<open>
  \<open>appointmentRepository.delete(id)\<close> and \<open>appointmentRepository.update(id, { link })\<close>:
  both act on the rows with that id and report nothing when there is none.
\<close>

definition repository_delete :: "int \<Rightarrow> Appointment list \<Rightarrow> Appointment list" where
  "repository_delete i rows = filter (\<lambda>a. appointment_id a \<noteq> i) rows"

definition repository_update_link :: "int \<Rightarrow> string \<Rightarrow> Appointment list \<Rightarrow> Appointment list" where
  "repository_update_link i l rows =
     map (\<lambda>a. if appointment_id a = i then a\<lparr>link := l\<rparr> else a) rows"

section \<open>AppointmentsService\<close>

definition getAllAppointmentsByDoctorId :: "Store \<Rightarrow> int \<Rightarrow> HttpException + Appointment list" where
  "getAllAppointmentsByDoctorId s i =
     (let qb = createQueryBuilder;
          qb = where_clause (Eq LocalDoctorIdCol i) qb;
          qb = orWhere (Eq RemoteDoctorIdCol i) qb;
          found = getMany qb (appointments s)
      in if length found = 0 then Inl (UnauthorizedException ''Appointments no found!'')
         else Inr found)"

definition getActiveAppointmentByDoctorId :: "Store \<Rightarrow> Clock \<Rightarrow> int \<Rightarrow> Appointment option" where
  "getActiveAppointmentByDoctorId s clock i =
     (let now = utc_toDate (now_ms clock);
          qb = createQueryBuilder;
          qb = where_clause (AndC (Lt StartTimeCol now) (Gt EndTimeCol now)) qb;
          qb = andWhere (OrC (Eq RemoteDoctorIdCol i) (Eq LocalDoctorIdCol i)) qb
      in getOne qb (appointments s))"

text \<open>
  \<open>createAppointment\<close>. The repository's \<open>save\<close> is the parameter \<open>save\<close>: it either
  rejects the row with an error of the store or returns the saved entity and the new
  store. The \<open>catch\<close> of the source has no condition on the error it receives.
\<close>

definition createAppointment ::
  "(Store \<Rightarrow> AppointmentPartial \<Rightarrow> 'e + Appointment \<times> Store) \<Rightarrow>
     Store \<Rightarrow> CreateAppointmentDto \<Rightarrow> HttpException + Appointment \<times> Store" where
  "createAppointment save s createAppointmentDto =
     (let startTime = utc_toDate (dto_startTime createAppointmentDto);
          endTime = utc_toDate (dto_endTime createAppointmentDto);
          appointment =
            \<lparr>new_link = dto_link createAppointmentDto,
             new_startTime = startTime,
             new_endTime = endTime,
             new_localDoctorId = dto_localDoctorId createAppointmentDto,
             new_remoteDoctorId = dto_remoteDoctorId createAppointmentDto,
             new_patientId = dto_patientId createAppointmentDto\<rparr>
      in case save s appointment of
           Inr savedAppointment \<Rightarrow> Inr savedAppointment
         | Inl error \<Rightarrow>
             Inl (ConflictException
               ''Error: An appointment with this time interval already exists.''))"

definition deleteAppointment :: "Store \<Rightarrow> int \<Rightarrow> HttpException + Store" where
  "deleteAppointment s i = Inr (s\<lparr>appointments := repository_delete i (appointments s)\<rparr>)"

definition postLinkAppointment :: "Store \<Rightarrow> int \<Rightarrow> string \<Rightarrow> HttpException + Store" where
  "postLinkAppointment s i l =
     Inr (s\<lparr>appointments := repository_update_link i l (appointments s)\<rparr>)"

text \<open>
  \<open>getAllAppointments\<close>, in the order of the source: the doctor is looked up, the clock
  is read, the builder is created and \<open>where\<close> is called, then the role and the filter
  are looked at. \<open>whereClause\<close> is declared without a value and handed to \<open>where\<close>
  before any branch assigns it; the assignments in the branches of the \<open>switch\<close> come
  after that call and the variable is not read again.
  The parameters \<open>startOfDay\<close>, \<open>endOfDay\<close> and \<open>now\<close> bound by that call are values for
  the conditions that name them; no condition of this query names \<open>endOfDay\<close> or \<open>now\<close>.
  The three calls of \<open>moment()\<close> read the clock at one instant.
\<close>

definition roleScope ::
  "Doctor \<Rightarrow> int \<Rightarrow> PaginationOptionsDto \<Rightarrow> SelectQuery \<Rightarrow> HttpException + SelectQuery" where
  "roleScope doctor i pagination qb =
     (if role doctor = LocalDoctor then
        (if \<not> showAll pagination then Inr (andWhere (Eq LocalDoctorIdCol i) qb) else Inr qb)
      else if role doctor = RemoteDoctor then Inr (andWhere (Eq RemoteDoctorIdCol i) qb)
      else Inl (BadRequestException ''Invalid role''))"

definition filterSwitch ::
  "Zone \<Rightarrow> instant \<Rightarrow> PaginationOptionsDto \<Rightarrow> SelectQuery \<Rightarrow> HttpException + SelectQuery" where
  "filterSwitch z startOfDay pagination qb =
     (case filterBy pagination of
        today \<Rightarrow>
          (let qb = orderBy_ASC StartTimeCol qb;
               qb = skip (offset pagination * limit pagination) qb;
               qb = take_rows (limit pagination) qb
           in Inr qb)
      | future \<Rightarrow>
          (let nextDay = startOf_day z (add_days z (offset pagination + 1) startOfDay);
               qb = orderBy_ASC StartTimeCol qb;
               qb = andWhere (AndC (Ge StartTimeCol startOfDay) (Lt StartTimeCol nextDay)) qb;
               qb = skip (offset pagination * limit pagination) qb;
               qb = take_rows (limit pagination) qb
           in Inr qb)
      | past \<Rightarrow>
          (let prevDay = endOf_day z (subtract_days z (offset pagination + 1) startOfDay);
               qb = orderBy_ASC EndTimeCol qb;
               qb = andWhere (AndC (Ge EndTimeCol prevDay) (Lt EndTimeCol startOfDay)) qb;
               qb = skip (offset pagination * limit pagination) qb;
               qb = take_rows (limit pagination) qb
           in Inr qb)
      | OtherFilter f \<Rightarrow> Inl (BadRequestException (''Invalid filter: '' @ f)))"

definition getAllAppointments ::
  "WhereUndefined \<Rightarrow> Store \<Rightarrow> Clock \<Rightarrow> int \<Rightarrow> PaginationOptionsDto \<Rightarrow>
     Thrown + Appointment list" where
  "getAllAppointments typeorm s clock i pagination =
     (let whereClause = None in
      case findOne_doctor (doctors s) i of
        None \<Rightarrow> Inl (Http (NotFoundException ''Doctor not found''))
      | Some doctor \<Rightarrow>
          (let now = utc_toDate (now_ms clock);
               startOfDay = startOf_day (zone clock) (now_ms clock);
               endOfDay = endOf_day (zone clock) (now_ms clock)
           in case where_variable typeorm whereClause createQueryBuilder of
                Inl e \<Rightarrow> Inl e
              | Inr qb \<Rightarrow>
                  (case roleScope doctor i pagination qb of
                     Inl e \<Rightarrow> Inl (Http e)
                   | Inr qb \<Rightarrow>
                       (case filterSwitch (zone clock) startOfDay pagination qb of
                          Inl e \<Rightarrow> Inl (Http e)
                        | Inr qb \<Rightarrow> Inr (getMany qb (appointments s))))))"

section \<open>The store's save, from the specification\<close>

text \<open>
  Modelled from the spec: the \<open>Appointment\<close> entity declaration with its constraints and
  the store's insert are not among the sources. The specification's data model says that
  no two appointments for the same doctor (local or remote role) may overlap in time and
  that the store rejects a row that would; the time windows are half open.
\<close>

datatype StoreError = OverlapViolation

definition overlaps :: "AppointmentPartial \<Rightarrow> Appointment \<Rightarrow> bool" where
  "overlaps n a \<longleftrightarrow>
     (new_localDoctorId n = localDoctorId a \<or> new_remoteDoctorId n = remoteDoctorId a) \<and>
     new_startTime n < endTime a \<and> startTime a < new_endTime n"

definition nextId :: "Appointment list \<Rightarrow> int" where
  "nextId rows = fold (\<lambda>a m. max m (appointment_id a)) rows 0 + 1"

definition save_spec :: "Store \<Rightarrow> AppointmentPartial \<Rightarrow> StoreError + Appointment \<times> Store" where
  "save_spec s n =
     (if list_ex (overlaps n) (appointments s) then Inl OverlapViolation
      else
        (let a = \<lparr>appointment_id = nextId (appointments s),
                  link = new_link n,
                  startTime = new_startTime n,
                  endTime = new_endTime n,
                  localDoctorId = new_localDoctorId n,
                  remoteDoctorId = new_remoteDoctorId n,
                  patientId = new_patientId n\<rparr>
         in Inr (a, s\<lparr>appointments := appointments s @ [a]\<rparr>)))"

section \<open>Example data\<close>

text \<open>
  Three doctors, one of each kind of role; appointments of local doctor 1 with remote
  doctor 2; a clock at 2023-11-14 22:13:20 UTC on a server in UTC and on a server two
  hours east of it, where the local date is already 2023-11-15.
\<close>

definition doctorLocal :: Doctor where
  "doctorLocal = \<lparr>doctor_id = 1, role = LocalDoctor\<rparr>"

definition doctorRemote :: Doctor where
  "doctorRemote = \<lparr>doctor_id = 2, role = RemoteDoctor\<rparr>"

definition doctorOther :: Doctor where
  "doctorOther = \<lparr>doctor_id = 3, role = OtherRole ''admin''\<rparr>"

definition appointmentAt :: "int \<Rightarrow> instant \<Rightarrow> instant \<Rightarrow> Appointment" where
  "appointmentAt k s e =
     \<lparr>appointment_id = k, link = ''https://meet.example/room'', startTime = s, endTime = e,
      localDoctorId = 1, remoteDoctorId = 2, patientId = 5\<rparr>"

definition storeOf :: "Appointment list \<Rightarrow> Store" where
  "storeOf rows = \<lparr>appointments = rows, doctors = [doctorLocal, doctorRemote, doctorOther]\<rparr>"

definition clockUTC :: Clock where
  "clockUTC = \<lparr>now_ms = 1700000000000, zone = fixedZone 0\<rparr>"

definition clockPlus2 :: Clock where
  "clockPlus2 = \<lparr>now_ms = 1700000000000, zone = fixedZone 7200000\<rparr>"

text \<open>A clock at 2023-10-29 10:00 UTC on a server in the zone with the change of offset.\<close>

definition clockBerlin :: Clock where
  "clockBerlin = \<lparr>now_ms = 1698573600000, zone = europeBerlin2023\<rparr>"

section \<open>Properties\<close>

lemmas example_defs = doctorLocal_def doctorRemote_def doctorOther_def appointmentAt_def
  storeOf_def clockUTC_def clockPlus2_def clockBerlin_def

lemmas builder_simps = createQueryBuilder_def where_clause_def where_variable_def andWhere_def
  orWhere_def orderBy_ASC_def skip_def take_rows_def

lemmas builder_defs = builder_simps getMany_def getOne_def

lemmas moment_defs = startOf_day_def endOf_day_def add_days_def subtract_days_def
  msPerDay_def utc_toDate_def fixedZone_def europeBerlin2023_def

lemmas listAll_defs = getAllAppointments_def roleScope_def filterSwitch_def findOne_doctor_def

subsection \<open>The query builder and the calendar\<close>

text \<open>Without an \<open>OR\<close> among them, the collected conditions are a plain conjunction.\<close>

lemma evalWheres_no_Or:
  "list_all (\<lambda>w. fst w \<noteq> Or) ws \<Longrightarrow>
     evalWheres acc ws a = (acc \<and> list_all (\<lambda>w. holds (snd w) a) ws)"
proof (induction ws arbitrary: acc)
  case Nil
  then show ?case by simp
next
  case (Cons w ws)
  obtain k c where w: "w = (k, c)" by (cases w)
  with Cons.prems have "k \<noteq> Or" by simp
  then have "evalWheres acc (w # ws) a = evalWheres (acc \<and> holds c a) ws a"
    unfolding w by (cases k) simp_all
  with Cons w show ?case by auto
qed

text \<open>What \<open>getMany\<close> returns are rows of the table that meet the conditions.\<close>

lemma set_getMany: "set (getMany qb rows) \<subseteq> {a \<in> set rows. evalWheres True (wheres qb) a}"
proof -
  let ?m = "filter (evalWheres True (wheres qb)) rows"
  have skipped: "set (case k of None \<Rightarrow> xs | Some n \<Rightarrow> drop n xs) \<subseteq> set xs"
    for k and xs :: "Appointment list"
    by (cases k) (auto dest: in_set_dropD)
  have taken: "set (case t of None \<Rightarrow> ys | Some n \<Rightarrow> if n = 0 then ys else take n ys) \<subseteq> set ys"
    for t and ys :: "Appointment list"
    by (cases t) (auto dest: in_set_takeD)
  have page: "set (case t of None \<Rightarrow> (case k of None \<Rightarrow> xs | Some n \<Rightarrow> drop n xs)
                   | Some n \<Rightarrow> if n = 0 then (case k of None \<Rightarrow> xs | Some n \<Rightarrow> drop n xs)
                              else take n (case k of None \<Rightarrow> xs | Some n \<Rightarrow> drop n xs))
                \<subseteq> set xs" for t k and xs :: "Appointment list"
    using taken [where t = t and ys = "case k of None \<Rightarrow> xs | Some n \<Rightarrow> drop n xs"]
      skipped [where k = k and xs = xs]
    by (rule subset_trans)
  have "set (getMany qb rows) \<subseteq> set ?m"
  proof (cases "orderBy qb")
    case None
    then show ?thesis
      using page [where t = "takeRows qb" and k = "skipRows qb" and xs = ?m]
      by (simp add: getMany_def Let_def)
  next
    case (Some c)
    then show ?thesis
      using page [where t = "takeRows qb" and k = "skipRows qb"
          and xs = "sort_key (columnValue c) ?m"]
      by (simp add: getMany_def Let_def)
  qed
  then show ?thesis by auto
qed

text \<open>With no ordering and no pagination, \<open>getOne\<close> is the first matching row.\<close>

lemma getOne_find:
  "getOne \<lparr>wheres = ws, orderBy = None, skipRows = None, takeRows = None\<rparr> rows
     = find (evalWheres True ws) rows"
proof -
  have "(case filter P rows of [] \<Rightarrow> None | a # _ \<Rightarrow> Some a) = find P rows" for P
    by (induction rows) auto
  then show ?thesis by (simp add: getOne_def getMany_def)
qed

text \<open>
  On a server in UTC the start of the day is the UTC midnight, and \<open>n\<close> calendar days
  after it is \<open>n\<close> times 24 hours later.
\<close>

lemma startOf_day_utc: "startOf_day (fixedZone 0) t = t - t mod msPerDay"
  by (simp add: startOf_day_def fixedZone_def minus_mod_eq_mult_div [symmetric] ac_simps)

lemma nextDay_utc:
  "startOf_day (fixedZone 0) (add_days (fixedZone 0) n (startOf_day (fixedZone 0) t))
     = t - t mod msPerDay + int n * msPerDay"
proof -
  have day: "(t - t mod msPerDay) div msPerDay = t div msPerDay"
    by (simp add: minus_mod_eq_mult_div msPerDay_def)
  have tod: "(t - t mod msPerDay) mod msPerDay = 0"
    by (simp add: minus_mod_eq_mult_div)
  have mid: "t div msPerDay * msPerDay = t - t mod msPerDay"
    by (simp add: minus_mod_eq_div_mult)
  show ?thesis
    by (simp add: startOf_day_def add_days_def fixedZone_def day tod mid
        msPerDay_def algebra_simps)
qed

text \<open>The \<open>switch\<close> on the filter keeps the conditions it is given and adds no \<open>OR\<close>.\<close>

lemma wheres_filterSwitch:
  "filterSwitch z sod p qb = Inr qb' \<Longrightarrow> set (wheres qb) \<subseteq> set (wheres qb')"
  by (auto simp: filterSwitch_def builder_simps Let_def split: Filter.splits)

lemma no_Or_filterSwitch:
  "filterSwitch z sod p qb = Inr qb' \<Longrightarrow> list_all (\<lambda>w. fst w \<noteq> Or) (wheres qb)
     \<Longrightarrow> list_all (\<lambda>w. fst w \<noteq> Or) (wheres qb')"
  by (auto simp: filterSwitch_def builder_simps Let_def split: Filter.splits)

lemma rows_of_scoped_query:
  assumes sw: "filterSwitch z sod p (andWhere c createQueryBuilder) = Inr qb"
    and a: "a \<in> set (getMany qb rows)"
  shows "holds c a"
proof -
  have "(And, c) \<in> set (wheres qb)"
    using wheres_filterSwitch [OF sw] by (auto simp: builder_simps)
  moreover have "list_all (\<lambda>w. fst w \<noteq> Or) (wheres qb)"
    using no_Or_filterSwitch [OF sw] by (simp add: builder_simps)
  moreover have "evalWheres True (wheres qb) a"
    using a set_getMany [of qb rows] by auto
  ultimately show ?thesis
    by (auto simp: evalWheres_no_Or list_all_iff)
qed

subsection \<open>The listing, by the behaviour of the builder\<close>

text \<open>An unknown doctor id is answered before the builder is touched.\<close>

lemma getAllAppointments_unknown_doctor:
  "findOne_doctor (doctors s) i = None \<Longrightarrow>
     getAllAppointments typeorm s clock i p = Inl (Http (NotFoundException ''Doctor not found''))"
  by (simp add: getAllAppointments_def)

text \<open>
  Where the builder throws on \<open>where(undefined)\<close>, every request of a known doctor ends
  in that \<open>TypeError\<close>: the call comes before the role and the filter are looked at.
\<close>

lemma getAllAppointments_where_throws:
  "findOne_doctor (doctors s) i = Some d \<Longrightarrow>
     getAllAppointments ThrowsTypeError s clock i p = Inl TypeError"
  by (simp add: getAllAppointments_def where_variable_def)

text \<open>
  Where the builder accepts \<open>where(undefined)\<close>, the query that is run is the one the
  filter builds from the builder that the role has prepared: with the condition on the
  local doctor, with none, or with the condition on the remote doctor.
\<close>

lemma getAllAppointments_by_role:
  assumes doc: "findOne_doctor (doctors s) i = Some d"
  shows "getAllAppointments AddsNoCondition s clock i p =
           (if role d = LocalDoctor \<and> \<not> showAll p then
              (case filterSwitch (zone clock) (startOf_day (zone clock) (now_ms clock)) p
                      (andWhere (Eq LocalDoctorIdCol i) createQueryBuilder) of
                 Inl e \<Rightarrow> Inl (Http e)
               | Inr qb \<Rightarrow> Inr (getMany qb (appointments s)))
            else if role d = LocalDoctor then
              (case filterSwitch (zone clock) (startOf_day (zone clock) (now_ms clock)) p
                      createQueryBuilder of
                 Inl e \<Rightarrow> Inl (Http e)
               | Inr qb \<Rightarrow> Inr (getMany qb (appointments s)))
            else if role d = RemoteDoctor then
              (case filterSwitch (zone clock) (startOf_day (zone clock) (now_ms clock)) p
                      (andWhere (Eq RemoteDoctorIdCol i) createQueryBuilder) of
                 Inl e \<Rightarrow> Inl (Http e)
               | Inr qb \<Rightarrow> Inr (getMany qb (appointments s)))
            else Inl (Http (BadRequestException ''Invalid role'')))"
proof -
  have bare: "createQueryBuilder\<lparr>wheres := []\<rparr> = createQueryBuilder"
    by (simp add: createQueryBuilder_def)
  show ?thesis
    using doc by (simp add: getAllAppointments_def where_variable_def roleScope_def bare)
qed

text \<open>Then every returned row is one of the doctor's own, unless \<open>showAll\<close> was set.\<close>

lemma getAllAppointments_rows_in_scope:
  assumes doc: "findOne_doctor (doctors s) i = Some d"
    and run: "getAllAppointments AddsNoCondition s clock i p = Inr rs"
    and a: "a \<in> set rs"
  shows "(role d = LocalDoctor \<and> \<not> showAll p \<longrightarrow> localDoctorId a = i) \<and>
         (role d = RemoteDoctor \<longrightarrow> remoteDoctorId a = i)"
proof (intro conjI impI)
  assume r: "role d = LocalDoctor \<and> \<not> showAll p"
  with run obtain qb where
    sw: "filterSwitch (zone clock) (startOf_day (zone clock) (now_ms clock)) p
       (andWhere (Eq LocalDoctorIdCol i) createQueryBuilder) = Inr qb"
    and rs: "rs = getMany qb (appointments s)"
    unfolding getAllAppointments_by_role [OF doc] by (auto split: sum.splits)
  from a have "a \<in> set (getMany qb (appointments s))"
    unfolding rs .
  with sw have "holds (Eq LocalDoctorIdCol i) a"
    by (rule rows_of_scoped_query)
  then show "localDoctorId a = i" by simp
next
  assume r: "role d = RemoteDoctor"
  with run obtain qb where
    sw: "filterSwitch (zone clock) (startOf_day (zone clock) (now_ms clock)) p
       (andWhere (Eq RemoteDoctorIdCol i) createQueryBuilder) = Inr qb"
    and rs: "rs = getMany qb (appointments s)"
    unfolding getAllAppointments_by_role [OF doc] by (auto split: sum.splits)
  from a have "a \<in> set (getMany qb (appointments s))"
    unfolding rs .
  with sw have "holds (Eq RemoteDoctorIdCol i) a"
    by (rule rows_of_scoped_query)
  then show "remoteDoctorId a = i" by simp
qed

text \<open>Then an unrecognised role or filter is answered with \<open>BadRequestException\<close>.\<close>

lemma getAllAppointments_failures_where_accepted:
  assumes doc: "findOne_doctor (doctors s) i = Some d"
  shows "(role d \<noteq> LocalDoctor \<and> role d \<noteq> RemoteDoctor \<longrightarrow>
            getAllAppointments AddsNoCondition s clock i p =
              Inl (Http (BadRequestException ''Invalid role'')))
       \<and> ((role d = LocalDoctor \<or> role d = RemoteDoctor) \<and> filterBy p = OtherFilter f \<longrightarrow>
            getAllAppointments AddsNoCondition s clock i p =
              Inl (Http (BadRequestException (''Invalid filter: '' @ f))))"
  unfolding getAllAppointments_by_role [OF doc] by (auto simp: filterSwitch_def)

subsection \<open>The today filter\<close>

text \<open>
  What the code does for \<open>today\<close> where the builder accepts \<open>where(undefined)\<close>: the rows
  in the doctor's scope, whatever their times, ordered by start time and paginated.
\<close>

lemma getAllAppointments_today_unrestricted:
  assumes doc: "findOne_doctor (doctors s) i = Some d"
    and known: "role d = LocalDoctor \<or> role d = RemoteDoctor"
    and tod: "filterBy p = today"
    and lim: "0 < limit p"
  shows "getAllAppointments AddsNoCondition s clock i p =
           Inr (take (limit p) (drop (offset p * limit p) (sort_key startTime
             (filter (\<lambda>a. (role d = LocalDoctor \<longrightarrow> showAll p \<or> localDoctorId a = i) \<and>
                          (role d = RemoteDoctor \<longrightarrow> remoteDoctorId a = i))
                (appointments s)))))"
proof -
  have scoped: "evalWheres True [(And, c)] = holds c" for c
    by (rule ext) simp
  have col: "columnValue StartTimeCol = startTime"
    by (rule ext) simp
  have eq: "holds (Eq LocalDoctorIdCol i) = (\<lambda>a. localDoctorId a = i)"
    "holds (Eq RemoteDoctorIdCol i) = (\<lambda>a. remoteDoctorId a = i)"
    by (rule ext, simp)+
  from known show ?thesis
  proof
    assume "role d = LocalDoctor"
    then show ?thesis using tod lim unfolding getAllAppointments_by_role [OF doc]
      by (cases "showAll p")
        (simp_all add: filterSwitch_def builder_simps getMany_def Let_def scoped col eq)
  next
    assume "role d = RemoteDoctor"
    then show ?thesis using tod lim unfolding getAllAppointments_by_role [OF doc]
      by (simp add: filterSwitch_def builder_simps getMany_def Let_def scoped col eq)
  qed
qed

text \<open>
  C1. The claim: with a recognised role and filter \<open>today\<close>, \<open>getAllAppointments\<close> returns
  only appointments that start at or after the start of today and end at or before the
  end of today, ordered by start time. The code at a concrete request: local doctor 1
  asks for \<open>today\<close> on 2023-11-14 and the only stored appointment is a week later, on
  2023-11-21 20:53 UTC. Where the builder accepts \<open>where(undefined)\<close>, the appointment
  is returned although it ends after the end of today: the condition written for
  \<open>today\<close> is assigned to \<open>whereClause\<close> after the builder has read that variable, so
  the query carries no time condition at all. Where the builder throws, the request
  ends in \<open>TypeError\<close> and returns no rows of today either.
\<close>

theorem getAllAppointments_today_returns_later_day:
  "getAllAppointments AddsNoCondition
       (storeOf [appointmentAt 1 1700600000000 1700603600000]) clockUTC 1
       \<lparr>offset = 0, limit = 10, filterBy = today, showAll = False\<rparr>
     = Inr [appointmentAt 1 1700600000000 1700603600000]
   \<and> \<not> endTime (appointmentAt 1 1700600000000 1700603600000)
         \<le> endOf_day (zone clockUTC) (now_ms clockUTC)
   \<and> getAllAppointments ThrowsTypeError
       (storeOf [appointmentAt 1 1700600000000 1700603600000]) clockUTC 1
       \<lparr>offset = 0, limit = 10, filterBy = today, showAll = False\<rparr>
     = Inl TypeError"
  by (simp add: listAll_defs builder_defs moment_defs example_defs)

subsection \<open>The future filter\<close>

text \<open>
  C2, as stated: with filter \<open>future\<close> and offset \<open>N\<close> the rows returned start at or after
  the start of today plus \<open>N\<close> days, and at most \<open>limit\<close> rows are taken. On a server in
  UTC, with offset 1 and limit 1, remote doctor 2 is given an appointment of today,
  2023-11-14 12:00 UTC, which starts before the start of tomorrow: the lower bound of
  the window is the start of today for every offset. With offset 0 and limit 0 the same
  doctor is given both appointments of today: a limit of 0 takes every row.
\<close>

theorem getAllAppointments_future_bucket_counterexample:
  "getAllAppointments AddsNoCondition
      (storeOf [appointmentAt 1 1699956000000 1699959600000,
                appointmentAt 2 1699963200000 1699966800000]) clockUTC 2
      \<lparr>offset = 1, limit = 1, filterBy = future, showAll = False\<rparr>
     = Inr [appointmentAt 2 1699963200000 1699966800000]
   \<and> \<not> (now_ms clockUTC - now_ms clockUTC mod msPerDay) + 1 * msPerDay
         \<le> startTime (appointmentAt 2 1699963200000 1699966800000)
   \<and> getAllAppointments AddsNoCondition
      (storeOf [appointmentAt 1 1699956000000 1699959600000,
                appointmentAt 2 1699963200000 1699966800000]) clockUTC 2
      \<lparr>offset = 0, limit = 0, filterBy = future, showAll = False\<rparr>
     = Inr [appointmentAt 1 1699956000000 1699959600000,
            appointmentAt 2 1699963200000 1699966800000]"
  by (simp add: listAll_defs builder_defs moment_defs example_defs)

text \<open>
  C2, amended: for a doctor with a recognised role, filter \<open>future\<close> with offset \<open>N\<close> and a
  limit of at least 1, \<open>getAllAppointments\<close> restricts the rows in the doctor's scope to
  those whose start time is at or after the start of today and strictly before the start
  of today plus \<open>N + 1\<close> days, orders them by start time ascending, then skips
  \<open>offset \<times> limit\<close> rows and takes \<open>limit\<close> rows. The day boundaries are those of UTC and
  the statement is about a server whose zone is UTC and a builder that accepts the
  \<open>where\<close> call; what happens otherwise is the matter of C6 and C1.
\<close>

theorem getAllAppointments_future_window:
  assumes doc: "findOne_doctor (doctors s) i = Some d"
    and known: "role d = LocalDoctor \<or> role d = RemoteDoctor"
    and fut: "filterBy p = future"
    and lim: "0 < limit p"
    and utc: "zone clock = fixedZone 0"
  shows "let startOfToday = now_ms clock - now_ms clock mod msPerDay;
             window = sort_key startTime
               (filter (\<lambda>a. (role d = LocalDoctor \<longrightarrow> showAll p \<or> localDoctorId a = i) \<and>
                            (role d = RemoteDoctor \<longrightarrow> remoteDoctorId a = i) \<and>
                            startOfToday \<le> startTime a \<and>
                            startTime a < startOfToday + (int (offset p) + 1) * msPerDay)
                  (appointments s))
         in getAllAppointments AddsNoCondition s clock i p =
              Inr (take (limit p) (drop (offset p * limit p) window)) \<and>
            sorted (map startTime window)"
proof -
  let ?sod = "now_ms clock - now_ms clock mod msPerDay"
  have sod: "startOf_day (fixedZone 0) (now_ms clock) = ?sod"
    by (rule startOf_day_utc)
  have next_day: "startOf_day (fixedZone 0) (add_days (fixedZone 0) (Suc (offset p)) ?sod)
                    = ?sod + (int (offset p) + 1) * msPerDay"
    using nextDay_utc [of "Suc (offset p)" "now_ms clock"]
    by (simp add: startOf_day_utc add.commute)
  have scoped: "evalWheres True [(And, c), (And, AndC (Ge StartTimeCol lo) (Lt StartTimeCol hi))]
                  = (\<lambda>a. holds c a \<and> lo \<le> startTime a \<and> startTime a < hi)" for c lo hi
    by (rule ext) simp
  have bare: "evalWheres True [(And, AndC (Ge StartTimeCol lo) (Lt StartTimeCol hi))]
                  = (\<lambda>a. lo \<le> startTime a \<and> startTime a < hi)" for lo hi
    by (rule ext) simp
  have col: "columnValue StartTimeCol = startTime"
    by (rule ext) simp
  have run: "getAllAppointments AddsNoCondition s clock i p =
              Inr (take (limit p) (drop (offset p * limit p) (sort_key startTime
               (filter (\<lambda>a. (role d = LocalDoctor \<longrightarrow> showAll p \<or> localDoctorId a = i) \<and>
                            (role d = RemoteDoctor \<longrightarrow> remoteDoctorId a = i) \<and>
                            ?sod \<le> startTime a \<and>
                            startTime a < ?sod + (int (offset p) + 1) * msPerDay)
                  (appointments s)))))"
    using known
  proof
    assume "role d = LocalDoctor"
    then show ?thesis using fut lim unfolding getAllAppointments_by_role [OF doc] utc
      by (cases "showAll p")
        (simp_all add: filterSwitch_def builder_simps getMany_def Let_def sod next_day scoped
          bare col)
  next
    assume "role d = RemoteDoctor"
    then show ?thesis using fut lim unfolding getAllAppointments_by_role [OF doc] utc
      by (simp add: filterSwitch_def builder_simps getMany_def Let_def sod next_day scoped
          bare col)
  qed
  show ?thesis unfolding Let_def using run by simp
qed

theorem getAllAppointments_future_window_witness:
  "findOne_doctor
      (doctors (storeOf [appointmentAt 1 1699956000000 1699959600000,
                         appointmentAt 2 1699963200000 1699966800000])) 2 = Some doctorRemote
   \<and> (role doctorRemote = LocalDoctor \<or> role doctorRemote = RemoteDoctor)
   \<and> filterBy \<lparr>offset = 1, limit = 1, filterBy = future, showAll = False\<rparr> = future
   \<and> 0 < limit \<lparr>offset = 1, limit = 1, filterBy = future, showAll = False\<rparr>
   \<and> zone clockUTC = fixedZone 0
   \<and> getAllAppointments AddsNoCondition
        (storeOf [appointmentAt 1 1699956000000 1699959600000,
                  appointmentAt 2 1699963200000 1699966800000]) clockUTC 2
        \<lparr>offset = 1, limit = 1, filterBy = future, showAll = False\<rparr>
      = Inr [appointmentAt 2 1699963200000 1699966800000]"
proof -
  let ?s = "storeOf [appointmentAt 1 1699956000000 1699959600000,
                     appointmentAt 2 1699963200000 1699966800000]"
  let ?p = "\<lparr>offset = 1, limit = 1, filterBy = future, showAll = False\<rparr>"
  have doc: "findOne_doctor (doctors ?s) 2 = Some doctorRemote"
    by (simp add: findOne_doctor_def example_defs)
  have known: "role doctorRemote = LocalDoctor \<or> role doctorRemote = RemoteDoctor"
    by (simp add: doctorRemote_def)
  have fut: "filterBy ?p = future" and lim: "0 < limit ?p"
    by simp_all
  have utc: "zone clockUTC = fixedZone 0"
    by (simp add: clockUTC_def)
  show ?thesis
    using doc known utc getAllAppointments_future_window [OF doc known fut lim utc]
    by (simp add: example_defs msPerDay_def)
qed

subsection \<open>Visibility by role\<close>


subsection \<open>Failures of the listing\<close>


subsection \<open>The active appointment\<close>

text \<open>
  C5. \<open>getActiveAppointmentByDoctorId\<close> returns an appointment exactly when some stored
  appointment that involves the doctor in either role has \<open>now\<close> strictly inside its
  window, that is \<open>startTime < now\<close> and \<open>now < endTime\<close>; otherwise it returns nothing.
  It returns at most one row, the first such in table order, by its result type.
\<close>

theorem getActiveAppointmentByDoctorId_iff:
  "getActiveAppointmentByDoctorId s clock i =
     find (\<lambda>a. startTime a < now_ms clock \<and> now_ms clock < endTime a \<and>
                (remoteDoctorId a = i \<or> localDoctorId a = i)) (appointments s)
   \<and> ((\<exists>a. getActiveAppointmentByDoctorId s clock i = Some a) \<longleftrightarrow>
        (\<exists>a \<in> set (appointments s). startTime a < now_ms clock \<and> now_ms clock < endTime a \<and>
                (remoteDoctorId a = i \<or> localDoctorId a = i)))"
proof -
  have eq: "getActiveAppointmentByDoctorId s clock i =
     find (\<lambda>a. startTime a < now_ms clock \<and> now_ms clock < endTime a \<and>
                (remoteDoctorId a = i \<or> localDoctorId a = i)) (appointments s)"
  proof -
    have "evalWheres True
            [(Simple, AndC (Lt StartTimeCol (now_ms clock)) (Gt EndTimeCol (now_ms clock))),
             (And, OrC (Eq RemoteDoctorIdCol i) (Eq LocalDoctorIdCol i))]
          = (\<lambda>a. startTime a < now_ms clock \<and> now_ms clock < endTime a \<and>
                (remoteDoctorId a = i \<or> localDoctorId a = i))"
      by (rule ext) simp
    then show ?thesis
      by (simp add: getActiveAppointmentByDoctorId_def createQueryBuilder_def where_clause_def
          andWhere_def getOne_find utc_toDate_def Let_def)
  qed
  show ?thesis
    unfolding eq by (auto simp: find_None_iff simp flip: not_None_eq)
qed

theorem getActiveAppointmentByDoctorId_iff_witness:
  "getActiveAppointmentByDoctorId (storeOf [appointmentAt 1 1699998000000 1700001600000])
      clockUTC 1 = Some (appointmentAt 1 1699998000000 1700001600000)
   \<and> getActiveAppointmentByDoctorId (storeOf [appointmentAt 1 1700000000000 1700001600000])
      clockUTC 1 = None"
  using getActiveAppointmentByDoctorId_iff [of "storeOf [appointmentAt 1 1699998000000 1700001600000]" clockUTC 1]
    getActiveAppointmentByDoctorId_iff [of "storeOf [appointmentAt 1 1700000000000 1700001600000]" clockUTC 1]
  by (simp add: example_defs)

subsection \<open>Day boundaries and the server's zone\<close>

text \<open>
  A local day of 25 hours: on 2023-10-29 in the zone with the change of offset, the
  window of \<open>future\<close> with offset 0 runs from 2023-10-28 22:00 UTC to 2023-10-29 23:00 UTC
  and holds an appointment that starts at 22:30 UTC.
\<close>

lemma getAllAppointments_future_on_a_25_hour_day:
  "getAllAppointments AddsNoCondition
       (storeOf [appointmentAt 1 1698618600000 1698620000000]) clockBerlin 1
       \<lparr>offset = 0, limit = 10, filterBy = future, showAll = False\<rparr>
     = Inr [appointmentAt 1 1698618600000 1698620000000]
   \<and> startOf_day (zone clockBerlin) (now_ms clockBerlin) = 1698530400000
   \<and> startOf_day (zone clockBerlin)
        (add_days (zone clockBerlin) 1 (startOf_day (zone clockBerlin) (now_ms clockBerlin)))
       = 1698530400000 + 25 * 3600000"
  by (simp add: listAll_defs builder_defs moment_defs example_defs)

text \<open>
  C6. The claim: every comparison with a day boundary happens in UTC, so the result of a
  query does not depend on the zone of the server. The code at a concrete request, where
  the builder accepts \<open>where(undefined)\<close>: the same store, the same instant and the same
  request (\<open>future\<close>, offset 0) give the appointment of 2023-11-14 10:00 UTC on a server
  in UTC and nothing on a server at UTC+2. \<open>startOfDay\<close> is taken from a moment in local
  mode: at the same instant it is 2023-11-14 00:00 UTC on the first server and
  2023-11-14 22:00 UTC, which is no UTC midnight, on the second.
\<close>

theorem getAllAppointments_depends_on_server_zone:
  "getAllAppointments AddsNoCondition
       (storeOf [appointmentAt 1 1699956000000 1699959600000]) clockUTC 1
       \<lparr>offset = 0, limit = 10, filterBy = future, showAll = False\<rparr>
     = Inr [appointmentAt 1 1699956000000 1699959600000]
   \<and> getAllAppointments AddsNoCondition
       (storeOf [appointmentAt 1 1699956000000 1699959600000]) clockPlus2 1
       \<lparr>offset = 0, limit = 10, filterBy = future, showAll = False\<rparr>
     = Inr []
   \<and> now_ms clockUTC = now_ms clockPlus2
   \<and> startOf_day (zone clockUTC) (now_ms clockUTC) = 1699920000000
   \<and> startOf_day (zone clockPlus2) (now_ms clockPlus2) = 1699999200000
   \<and> 1699999200000 mod msPerDay = 79200000"
  by (simp add: listAll_defs builder_defs moment_defs example_defs)

subsection \<open>Listing by doctor\<close>

text \<open>
  C7. The claim: for a doctor with no appointment, \<open>getAllAppointmentsByDoctorId\<close> fails
  with a not-found signal. The code at a concrete request: doctor 3 takes part in no
  stored appointment and the call fails with \<open>UnauthorizedException\<close>, whose message is
  \<open>Appointments no found!\<close>.
\<close>

theorem getAllAppointmentsByDoctorId_none_is_unauthorized:
  "getAllAppointmentsByDoctorId (storeOf [appointmentAt 1 1699956000000 1699959600000]) 3
     = Inl (UnauthorizedException ''Appointments no found!'')"
  by (simp add: getAllAppointmentsByDoctorId_def builder_defs example_defs)

subsection \<open>Delete and update of the link\<close>

lemma filter_appointment_id_absent:
  "\<not> list_ex (\<lambda>a. appointment_id a = i) rows \<Longrightarrow> repository_delete i rows = rows"
  by (simp add: repository_delete_def list_ex_iff filter_id_conv)

lemma update_link_absent:
  "\<not> list_ex (\<lambda>a. appointment_id a = i) rows \<Longrightarrow> repository_update_link i l rows = rows"
  by (simp add: repository_update_link_def list_ex_iff map_idI)

text \<open>
  C9. \<open>deleteAppointment\<close> and \<open>postLinkAppointment\<close> never fail. On an id that no stored
  appointment has, both leave the store as it is. \<open>postLinkAppointment\<close> keeps the
  doctors and the number and order of the appointments; a row with another id is
  unchanged and a row with the given id differs from the old one in its link only.
\<close>

theorem delete_and_postLink_frame:
  "(\<not> list_ex (\<lambda>a. appointment_id a = i) (appointments s) \<longrightarrow>
       deleteAppointment s i = Inr s \<and> postLinkAppointment s i l = Inr s)
   \<and> (\<exists>s'. deleteAppointment s i = Inr s')
   \<and> (\<exists>s'. postLinkAppointment s i l = Inr s' \<and> doctors s' = doctors s \<and>
            length (appointments s') = length (appointments s) \<and>
            (\<forall>k < length (appointments s).
               (appointment_id (appointments s ! k) \<noteq> i \<longrightarrow>
                  appointments s' ! k = appointments s ! k) \<and>
               (appointment_id (appointments s ! k) = i \<longrightarrow>
                  appointments s' ! k = (appointments s ! k)\<lparr>link := l\<rparr>)))"
proof (intro conjI impI)
  assume absent: "\<not> list_ex (\<lambda>a. appointment_id a = i) (appointments s)"
  show "deleteAppointment s i = Inr s"
    by (simp add: deleteAppointment_def filter_appointment_id_absent [OF absent])
  show "postLinkAppointment s i l = Inr s"
    by (simp add: postLinkAppointment_def update_link_absent [OF absent])
next
  show "\<exists>s'. deleteAppointment s i = Inr s'"
    by (simp add: deleteAppointment_def)
next
  show "\<exists>s'. postLinkAppointment s i l = Inr s' \<and> doctors s' = doctors s \<and>
            length (appointments s') = length (appointments s) \<and>
            (\<forall>k < length (appointments s).
               (appointment_id (appointments s ! k) \<noteq> i \<longrightarrow>
                  appointments s' ! k = appointments s ! k) \<and>
               (appointment_id (appointments s ! k) = i \<longrightarrow>
                  appointments s' ! k = (appointments s ! k)\<lparr>link := l\<rparr>))"
    by (simp add: postLinkAppointment_def repository_update_link_def)
qed

theorem delete_and_postLink_frame_witness:
  "deleteAppointment (storeOf [appointmentAt 1 10 20, appointmentAt 2 30 40]) 7
     = Inr (storeOf [appointmentAt 1 10 20, appointmentAt 2 30 40])
   \<and> postLinkAppointment (storeOf [appointmentAt 1 10 20, appointmentAt 2 30 40]) 7 ''x''
     = Inr (storeOf [appointmentAt 1 10 20, appointmentAt 2 30 40])
   \<and> (\<exists>s'. postLinkAppointment (storeOf [appointmentAt 1 10 20, appointmentAt 2 30 40]) 2 ''x''
              = Inr s'
         \<and> appointments s' ! 0 = appointmentAt 1 10 20
         \<and> appointments s' ! 1 = (appointmentAt 2 30 40)\<lparr>link := ''x''\<rparr>)"
proof -
  let ?s = "storeOf [appointmentAt 1 10 20, appointmentAt 2 30 40]"
  have absent: "\<not> list_ex (\<lambda>a. appointment_id a = 7) (appointments ?s)"
    by (simp add: example_defs)
  have rows: "appointments ?s = [appointmentAt 1 10 20, appointmentAt 2 30 40]"
    by (simp add: storeOf_def)
  from delete_and_postLink_frame [of 7 ?s "''x''"] absent
  have "deleteAppointment ?s 7 = Inr ?s" and "postLinkAppointment ?s 7 ''x'' = Inr ?s"
    by simp_all
  moreover from delete_and_postLink_frame [of 2 ?s "''x''"]
  obtain s' where s': "postLinkAppointment ?s 2 ''x'' = Inr s'"
    and each: "\<forall>k < length (appointments ?s).
               (appointment_id (appointments ?s ! k) \<noteq> 2 \<longrightarrow>
                  appointments s' ! k = appointments ?s ! k) \<and>
               (appointment_id (appointments ?s ! k) = 2 \<longrightarrow>
                  appointments s' ! k = (appointments ?s ! k)\<lparr>link := ''x''\<rparr>)"
    by blast
  from each have "appointments s' ! 0 = appointmentAt 1 10 20"
    and "appointments s' ! 1 = (appointmentAt 2 30 40)\<lparr>link := ''x''\<rparr>"
    unfolding rows by (simp_all add: appointmentAt_def)
  with s' have "\<exists>s'. postLinkAppointment ?s 2 ''x'' = Inr s'
         \<and> appointments s' ! 0 = appointmentAt 1 10 20
         \<and> appointments s' ! 1 = (appointmentAt 2 30 40)\<lparr>link := ''x''\<rparr>"
    by blast
  ultimately show ?thesis by blast
qed

subsection \<open>Creating an appointment\<close>

text \<open>
  C10. Whatever error the store's \<open>save\<close> rejects the row with, \<open>createAppointment\<close>
  fails with \<open>ConflictException\<close> and the message about an existing time interval.
\<close>

theorem createAppointment_any_save_error_is_conflict:
  assumes "save s \<lparr>new_link = dto_link dto,
                   new_startTime = utc_toDate (dto_startTime dto),
                   new_endTime = utc_toDate (dto_endTime dto),
                   new_localDoctorId = dto_localDoctorId dto,
                   new_remoteDoctorId = dto_remoteDoctorId dto,
                   new_patientId = dto_patientId dto\<rparr> = Inl e"
  shows "createAppointment save s dto =
           Inl (ConflictException
                  ''Error: An appointment with this time interval already exists.'')"
  using assms by (simp add: createAppointment_def)

theorem createAppointment_any_save_error_is_conflict_witness:
  "createAppointment (\<lambda>s n. Inl ''ER_NO_REFERENCED_ROW_2'') (storeOf [])
     \<lparr>dto_link = ''https://meet.example/room'', dto_startTime = 1699956000000,
      dto_endTime = 1699959600000, dto_localDoctorId = 99, dto_remoteDoctorId = 2,
      dto_patientId = 5\<rparr>
   = Inl (ConflictException ''Error: An appointment with this time interval already exists.'')"
  by (rule createAppointment_any_save_error_is_conflict [where e = "''ER_NO_REFERENCED_ROW_2''"]) simp

text \<open>
  C4, against the store of the specification. When the request overlaps no stored
  appointment of the same local or the same remote doctor, \<open>createAppointment\<close> succeeds,
  the returned appointment carries the normalised start and end of the request and is
  the one row added to the store; when it overlaps one, \<open>createAppointment\<close> fails with
  \<open>ConflictException\<close>.
\<close>

theorem createAppointment_overlap_spec:
  "(\<not> (\<exists>b \<in> set (appointments s).
          (dto_localDoctorId dto = localDoctorId b \<or> dto_remoteDoctorId dto = remoteDoctorId b) \<and>
          utc_toDate (dto_startTime dto) < endTime b \<and>
          startTime b < utc_toDate (dto_endTime dto)) \<longrightarrow>
      (\<exists>a s'. createAppointment save_spec s dto = Inr (a, s') \<and>
               startTime a = utc_toDate (dto_startTime dto) \<and>
               endTime a = utc_toDate (dto_endTime dto) \<and>
               appointments s' = appointments s @ [a]))
   \<and> ((\<exists>b \<in> set (appointments s).
          (dto_localDoctorId dto = localDoctorId b \<or> dto_remoteDoctorId dto = remoteDoctorId b) \<and>
          utc_toDate (dto_startTime dto) < endTime b \<and>
          startTime b < utc_toDate (dto_endTime dto)) \<longrightarrow>
      createAppointment save_spec s dto =
        Inl (ConflictException
               ''Error: An appointment with this time interval already exists.''))"
  by (auto simp: createAppointment_def save_spec_def overlaps_def list_ex_iff Let_def)

theorem createAppointment_overlap_spec_witness:
  "(\<exists>a s'. createAppointment save_spec (storeOf [appointmentAt 1 1699956000000 1699959600000])
       \<lparr>dto_link = ''https://meet.example/next'', dto_startTime = 1699959600000,
        dto_endTime = 1699963200000, dto_localDoctorId = 1, dto_remoteDoctorId = 2,
        dto_patientId = 5\<rparr> = Inr (a, s')
      \<and> startTime a = 1699959600000 \<and> endTime a = 1699963200000)
   \<and> createAppointment save_spec (storeOf [appointmentAt 1 1699956000000 1699959600000])
       \<lparr>dto_link = ''https://meet.example/next'', dto_startTime = 1699958000000,
        dto_endTime = 1699963200000, dto_localDoctorId = 1, dto_remoteDoctorId = 7,
        dto_patientId = 5\<rparr>
     = Inl (ConflictException ''Error: An appointment with this time interval already exists.'')"
  using createAppointment_overlap_spec [of "storeOf [appointmentAt 1 1699956000000 1699959600000]"
       "\<lparr>dto_link = ''https://meet.example/next'', dto_startTime = 1699959600000,
        dto_endTime = 1699963200000, dto_localDoctorId = 1, dto_remoteDoctorId = 2,
        dto_patientId = 5\<rparr>"]
    createAppointment_overlap_spec [of "storeOf [appointmentAt 1 1699956000000 1699959600000]"
       "\<lparr>dto_link = ''https://meet.example/next'', dto_startTime = 1699958000000,
        dto_endTime = 1699963200000, dto_localDoctorId = 1, dto_remoteDoctorId = 7,
        dto_patientId = 5\<rparr>"]
  by (simp add: example_defs utc_toDate_def) blast

end
